theory Spec2Isabelle
  imports Complex_Main
begin

section \<open>JavaScript values\<close>

text \<open>
  Strings are modelled as the byte sequence of their UTF-8 encoding (\<^typ>\<open>string\<close>); this is
  what \<^verbatim>\<open>Buffer.from(s)\<close> produces and what the regular expressions of the helpers look at
  (they only mention ASCII characters). A thrown \<^verbatim>\<open>Error\<close> carries its message.
\<close>

datatype js_error = Error string

text \<open>
  A JavaScript number: a finite double is modelled by the real number it denotes (comparison of
  doubles is exact), plus the three special values.
\<close>

datatype jsnumber = Num real | NaN | PosInf | NegInf

text \<open>
  A value of a request body, or \<^verbatim>\<open>undefined\<close>. An object is the list of its own properties,
  every key once.
\<close>

datatype js =
    JUndefined
  | JNull
  | JBool bool
  | JNumber jsnumber
  | JString string
  | JArray "js list"
  | JObject "(string \<times> js) list"

definition isNaN :: "jsnumber \<Rightarrow> bool" where
  "isNaN a = (a = NaN)"

text \<open>The relational operators \<^verbatim>\<open><=\<close> and \<^verbatim>\<open><\<close> on numbers; every comparison with NaN is false.\<close>

fun js_le :: "jsnumber \<Rightarrow> jsnumber \<Rightarrow> bool" where
  "js_le NaN _ = False"
| "js_le _ NaN = False"
| "js_le (Num a) (Num b) = (a \<le> b)"
| "js_le NegInf _ = True"
| "js_le _ PosInf = True"
| "js_le PosInf _ = False"
| "js_le (Num a) NegInf = False"

fun js_lt :: "jsnumber \<Rightarrow> jsnumber \<Rightarrow> bool" where
  "js_lt NaN _ = False"
| "js_lt _ NaN = False"
| "js_lt (Num a) (Num b) = (a < b)"
| "js_lt NegInf NegInf = False"
| "js_lt NegInf _ = True"
| "js_lt PosInf _ = False"
| "js_lt (Num a) PosInf = True"
| "js_lt (Num a) NegInf = False"

text \<open>\<^verbatim>\<open>!amount\<close> for a number: 0 and NaN are falsy.\<close>

definition falsy_number :: "jsnumber \<Rightarrow> bool" where
  "falsy_number a = (a = Num 0 \<or> a = NaN)"

text \<open>\<^verbatim>\<open>Math.round\<close>: the nearest integer, ties towards plus infinity.\<close>

fun math_round :: "jsnumber \<Rightarrow> jsnumber" where
  "math_round (Num r) = Num (of_int \<lfloor>r + 1 / 2\<rfloor>)"
| "math_round v = v"

text \<open>A string used as a condition (\<^verbatim>\<open>null\<close> is \<open>None\<close>): truthy when present and non-empty.\<close>

definition truthy_string :: "string option \<Rightarrow> bool" where
  "truthy_string s = (case s of None \<Rightarrow> False | Some v \<Rightarrow> v \<noteq> [])"

definition startsWith :: "string \<Rightarrow> string \<Rightarrow> bool" where
  "startsWith s p = (take (length p) s = p)"

fun includes_str :: "string \<Rightarrow> string \<Rightarrow> bool" where
  "includes_str [] p = (p = [])"
| "includes_str (c # cs) p = (startsWith (c # cs) p \<or> includes_str cs p)"

definition lower_char :: "char \<Rightarrow> char" where
  "lower_char c =
     (case map_of (zip ''ABCDEFGHIJKLMNOPQRSTUVWXYZ'' ''abcdefghijklmnopqrstuvwxyz'') c of
        Some l \<Rightarrow> l
      | None \<Rightarrow> c)"

definition toLowerCase :: "string \<Rightarrow> string" where
  "toLowerCase s = map lower_char s"

fun join_comma :: "string list \<Rightarrow> string" where
  "join_comma [] = []"
| "join_comma [x] = x"
| "join_comma (x # y # zs) = x @ '','' @ join_comma (y # zs)"

text \<open>
  The conversion of a value to a string or property key (\<^verbatim>\<open>ToString\<close>). \<open>ns\<close> is the conversion
  of a finite number, a builtin of the language. An object with an own (hence not callable)
  \<^verbatim>\<open>toString\<close> cannot be converted: a \<^verbatim>\<open>TypeError\<close>, \<open>None\<close>. An array joins its elements,
  \<^verbatim>\<open>null\<close> and \<^verbatim>\<open>undefined\<close> as empty strings.
\<close>

fun to_key :: "(real \<Rightarrow> string) \<Rightarrow> js \<Rightarrow> string option" where
  "to_key ns JUndefined = Some ''undefined''"
| "to_key ns JNull = Some ''null''"
| "to_key ns (JBool b) = Some (if b then ''true'' else ''false'')"
| "to_key ns (JNumber n) =
     Some (case n of Num r \<Rightarrow> ns r | NaN \<Rightarrow> ''NaN'' | PosInf \<Rightarrow> ''Infinity''
           | NegInf \<Rightarrow> ''-Infinity'')"
| "to_key ns (JString s) = Some s"
| "to_key ns (JArray xs) =
     (let parts = map (\<lambda>x. if x = JUndefined \<or> x = JNull then Some [] else to_key ns x) xs
      in case those parts of None \<Rightarrow> None | Some strs \<Rightarrow> Some (join_comma strs))"
| "to_key ns (JObject kvs) =
     (if map_of kvs ''toString'' = None then Some ''[object Object]'' else None)"

text \<open>
  The conversion of a value to a number (\<^verbatim>\<open>ToNumber\<close>), which \<^verbatim>\<open>isNaN\<close> and the relational
  operators apply to an operand. \<open>sn\<close> is the conversion of a string (\<^verbatim>\<open>StringToNumber\<close>), a
  builtin of the language. An array or an object is first made a primitive value: its
  \<^verbatim>\<open>valueOf\<close> gives no primitive, so this is the string of \<^const>\<open>to_key\<close>, or the \<^verbatim>\<open>TypeError\<close>.
\<close>

fun to_number :: "(real \<Rightarrow> string) \<Rightarrow> (string \<Rightarrow> jsnumber) \<Rightarrow> js \<Rightarrow> jsnumber option" where
  "to_number ns sn JUndefined = Some NaN"
| "to_number ns sn JNull = Some (Num 0)"
| "to_number ns sn (JBool b) = Some (Num (if b then 1 else 0))"
| "to_number ns sn (JNumber n) = Some n"
| "to_number ns sn (JString s) = Some (sn s)"
| "to_number ns sn v = map_option sn (to_key ns v)"

section \<open>Helpers (src/utils/helpers.js)\<close>

subsection \<open>Base64 (\<^verbatim>\<open>Buffer.from(s).toString('base64')\<close>)\<close>

definition b64chars :: string where
  "b64chars = ''ABCDEFGHIJKLMNOPQRSTUVWXYZabcdefghijklmnopqrstuvwxyz0123456789+/''"

definition b64char :: "nat \<Rightarrow> char" where
  "b64char n = b64chars ! n"

text \<open>
  Three bytes give four sextets; a final group of one or two bytes is padded with \<open>=\<close>.
  Every index handed to \<^const>\<open>b64char\<close> is below 64.
\<close>

fun base64 :: "string \<Rightarrow> string" where
  "base64 (a # b # c # xs) =
     [b64char (of_char a div 4),
      b64char ((of_char a mod 4) * 16 + of_char b div 16),
      b64char ((of_char b mod 16) * 4 + of_char c div 64),
      b64char (of_char c mod 64)] @ base64 xs"
| "base64 [a, b] =
     [b64char (of_char a div 4),
      b64char ((of_char a mod 4) * 16 + of_char b div 16),
      b64char ((of_char b mod 16) * 4),
      CHR ''='']"
| "base64 [a] =
     [b64char (of_char a div 4),
      b64char ((of_char a mod 4) * 16),
      CHR ''='', CHR ''='']"
| "base64 [] = []"

definition generatePassword :: "string \<Rightarrow> string \<Rightarrow> string \<Rightarrow> string" where
  "generatePassword businessShortCode passkey timestamp =
     (let password = businessShortCode @ passkey @ timestamp in base64 password)"

subsection \<open>Amount validation\<close>

text \<open>
  The argument is any value: a value of a request body or \<^verbatim>\<open>undefined\<close>. \<^verbatim>\<open>isNaN\<close>, \<^verbatim>\<open>>=\<close> and
  \<^verbatim>\<open><=\<close> each convert it to a number, all three to the same one; \<open>None\<close> stands for the
  \<^verbatim>\<open>TypeError\<close> of a value that cannot be converted.
\<close>

definition isValidAmount ::
  "(real \<Rightarrow> string) \<Rightarrow> (string \<Rightarrow> jsnumber) \<Rightarrow> js \<Rightarrow> bool option" where
  "isValidAmount ns sn amount =
     (case to_number ns sn amount of
        None \<Rightarrow> None
      | Some n \<Rightarrow> Some (\<not> isNaN n \<and> js_le (Num 1) n \<and> js_le n (Num 70000)))"

subsection \<open>Phone numbers\<close>

definition is_digit :: "char \<Rightarrow> bool" where
  "is_digit c = (c \<in> set ''0123456789'')"

text \<open>
  A regular expression anchored at both ends whose atoms are single character classes is a list
  of classes; the string matches when it has one character per class, each in its class.
\<close>

definition regex_match :: "(char \<Rightarrow> bool) list \<Rightarrow> string \<Rightarrow> bool" where
  "regex_match classes s = list_all2 (\<lambda>cls c. cls c) classes s"

text \<open>\<^verbatim>\<open>/^254[0-9]{9}$/\<close>\<close>

definition msisdn_regex :: "(char \<Rightarrow> bool) list" where
  "msisdn_regex =
     [(\<lambda>c. c = CHR ''2''), (\<lambda>c. c = CHR ''5''), (\<lambda>c. c = CHR ''4'')] @ replicate 9 is_digit"

definition formatPhoneNumber :: "string \<Rightarrow> js_error + string" where
  "formatPhoneNumber phoneNumber =
     (let formatted = filter is_digit phoneNumber;
          formatted =
            (if startsWith formatted ''0'' then ''254'' @ drop 1 formatted
             else if startsWith formatted ''712'' \<or> startsWith formatted ''722''
                     \<or> startsWith formatted ''733''
               then ''254'' @ formatted
             else if startsWith formatted ''+254'' then drop 1 formatted
             else formatted)
      in if \<not> regex_match msisdn_regex formatted
         then Inl (Error ''Invalid phone number format. Use 254XXXXXXXXX format'')
         else Inr formatted)"

section \<open>Rate limiting middleware\<close>

text \<open>
  \<^verbatim>\<open>rateLimitStore\<close> is a \<^verbatim>\<open>Map\<close> from the client address to the list of its request times
  (\<^verbatim>\<open>Date.now()\<close>, integer milliseconds). The middleware either calls \<^verbatim>\<open>next()\<close> or answers
  with status 429 and the fields \<^verbatim>\<open>limit\<close>, \<^verbatim>\<open>windowMs\<close> and \<^verbatim>\<open>remainingTime\<close>.
\<close>

type_synonym 'k rate_store = "'k \<rightharpoonup> int list"

datatype rate_outcome = Next | Reject429 int int jsnumber

definition cleanupRateLimitStore :: "int \<Rightarrow> 'k rate_store \<Rightarrow> 'k rate_store" where
  "cleanupRateLimitStore windowStart store =
     (\<lambda>clientIp.
        case store clientIp of
          None \<Rightarrow> None
        | Some requests \<Rightarrow>
            (let validRequests = filter (\<lambda>requestTime. requestTime > windowStart) requests
             in if length validRequests = 0 then None else Some validRequests))"

text \<open>
  \<^verbatim>\<open>clientRecord[0]\<close> of an empty array is \<^verbatim>\<open>undefined\<close>, and the arithmetic on it gives NaN.
\<close>

definition remainingTime :: "int list \<Rightarrow> int \<Rightarrow> int \<Rightarrow> jsnumber" where
  "remainingTime clientRecord windowMs currentTime =
     (case clientRecord of
        [] \<Rightarrow> NaN
      | oldest # _ \<Rightarrow> Num (of_int \<lceil>real_of_int (oldest + windowMs - currentTime) / 1000\<rceil>))"

text \<open>
  \<open>random\<close> is the value of \<^verbatim>\<open>Math.random()\<close>, \<open>currentTime\<close> the value of \<^verbatim>\<open>Date.now()\<close>.
\<close>

definition rateLimit ::
  "int \<Rightarrow> int \<Rightarrow> 'k rate_store \<Rightarrow> 'k \<Rightarrow> int \<Rightarrow> real \<Rightarrow> rate_outcome \<times> 'k rate_store" where
  "rateLimit maxRequests windowMs store clientIp currentTime random =
     (let windowStart = currentTime - windowMs;
          clientRecord = (case store clientIp of Some r \<Rightarrow> r | None \<Rightarrow> []);
          clientRecord = filter (\<lambda>requestTime. requestTime > windowStart) clientRecord
      in if int (length clientRecord) \<ge> maxRequests
         then (Reject429 maxRequests windowMs (remainingTime clientRecord windowMs currentTime),
               store)
         else
           (let clientRecord = clientRecord @ [currentTime];
                store = store(clientIp \<mapsto> clientRecord);
                store = (if random < 0.1 then cleanupRateLimitStore windowStart store else store)
            in (Next, store)))"

text \<open>A sequence of requests of one client, oldest first, each with its clock and random value.\<close>

fun rateLimit_run ::
  "int \<Rightarrow> int \<Rightarrow> 'k rate_store \<Rightarrow> 'k \<Rightarrow> (int \<times> real) list \<Rightarrow> rate_outcome list \<times> 'k rate_store" where
  "rateLimit_run maxRequests windowMs store clientIp [] = ([], store)"
| "rateLimit_run maxRequests windowMs store clientIp ((t, r) # reqs) =
     (let (out, store') = rateLimit maxRequests windowMs store clientIp t r;
          (outs, store'') = rateLimit_run maxRequests windowMs store' clientIp reqs
      in (out # outs, store''))"

section \<open>The M-Pesa service\<close>

record config =
  consumerKey :: string
  consumerSecret :: string
  businessShortCode :: string
  passkey :: string
  callbackUrl :: string
  accountReference :: string
  transactionDesc :: string
  authUrl :: string
  stkPushUrl :: string
  queryUrl :: string

text \<open>
  A moment wraps a \<^verbatim>\<open>Date\<close>: an instant in milliseconds since the epoch, of magnitude at most
  8.64e15, or the invalid date that \<^verbatim>\<open>setTime\<close> leaves outside this range. Clock readings are
  instants of the range.
\<close>

datatype moment = Instant int | Invalid_date

text \<open>\<^verbatim>\<open>moment().isBefore(m)\<close> with the clock at \<open>now\<close>: nothing is before an invalid moment.\<close>

fun isBefore :: "int \<Rightarrow> moment \<Rightarrow> bool" where
  "isBefore now (Instant t) = (now < t)"
| "isBefore now Invalid_date = False"

text \<open>
  \<^verbatim>\<open>moment().add(seconds, 'seconds')\<close> with the clock at \<open>now\<close>, for a whole number of seconds. Within
  the range of dates the sum is exact in double arithmetic.
\<close>

definition add_seconds :: "int \<Rightarrow> int \<Rightarrow> moment" where
  "add_seconds now seconds =
     (let t = now + seconds * 1000
      in if - 8640000000000000 \<le> t \<and> t \<le> 8640000000000000 then Instant t
         else Invalid_date)"

text \<open>The mutable fields of the service object: \<^verbatim>\<open>null\<close> is \<open>None\<close>.\<close>

record token_cache =
  accessToken :: "string option"
  tokenExpiry :: "moment option"

record stk_payload =
  BusinessShortCode :: string
  Password :: string
  Timestamp :: string
  TransactionType :: string
  Amount :: jsnumber
  PartyA :: string
  PartyB :: string
  PhoneNumber :: string
  CallBackURL :: string
  AccountReference :: string
  TransactionDesc :: string

text \<open>The requests the service sends: the credential exchange and the payment request.\<close>

datatype http_call =
    Get string string
  | Post string string stk_payload

text \<open>
  What the authorization endpoint answers: the request fails (network error or error status),
  or it delivers \<^verbatim>\<open>access_token\<close> (absent is \<open>None\<close>) and \<^verbatim>\<open>expires_in\<close>, the lifetime in seconds,
  a whole number (the number that \<^verbatim>\<open>expires_in - 60\<close> converts it to, plus 60).
\<close>

datatype auth_reply = Auth_failed | Auth_response "string option" int

subsection \<open>Token cache\<close>

definition auth_error :: js_error where
  "auth_error = Error ''Failed to authenticate with M-Pesa API''"

text \<open>
  The request to the authorization endpoint and the handling of its answer. Every failure on
  this path, also the inner \<^verbatim>\<open>Failed to obtain access token\<close>, is caught and rethrown as
  \<^const>\<open>auth_error\<close>. \<open>now'\<close> is the clock when the answer is stored.
\<close>

definition requestToken ::
  "config \<Rightarrow> token_cache \<Rightarrow> int \<Rightarrow> auth_reply
     \<Rightarrow> (js_error + string) \<times> token_cache \<times> http_call list" where
  "requestToken cfg st now' reply =
     (let auth = base64 (consumerKey cfg @ '':'' @ consumerSecret cfg);
          call = Get (authUrl cfg) (''Basic '' @ auth)
      in case reply of
           Auth_failed \<Rightarrow> (Inl auth_error, st, [call])
         | Auth_response None expires_in \<Rightarrow> (Inl auth_error, st, [call])
         | Auth_response (Some access_token) expires_in \<Rightarrow>
             if access_token \<noteq> []
             then (Inr access_token,
                   st\<lparr>accessToken := Some access_token,
                      tokenExpiry := Some (add_seconds now' (expires_in - 60))\<rparr>,
                   [call])
             else (Inl auth_error, st, [call]))"

text \<open>
  \<open>now\<close> is the clock at the validity test. The result is the returned token or the thrown
  error, the new state of the cache, and the requests sent.
\<close>

definition getAccessToken ::
  "config \<Rightarrow> token_cache \<Rightarrow> int \<Rightarrow> int \<Rightarrow> auth_reply
     \<Rightarrow> (js_error + string) \<times> token_cache \<times> http_call list" where
  "getAccessToken cfg st now now' reply =
     (case (accessToken st, tokenExpiry st) of
        (Some tok, Some expiry) \<Rightarrow>
          if tok \<noteq> [] \<and> isBefore now expiry then (Inr tok, st, [])
          else requestToken cfg st now' reply
      | _ \<Rightarrow> requestToken cfg st now' reply)"

subsection \<open>STK push\<close>

record stk_response_data =
  ResponseCode :: string
  MerchantRequestID :: string
  CheckoutRequestID :: string
  ResponseDescription :: "string option"
  CustomerMessage :: string

text \<open>
  What the payment endpoint answers: the request fails, with the \<^verbatim>\<open>errorMessage\<close> of the error
  body if there is one and the message of the error, or it delivers response data.
\<close>

datatype stk_reply = Stk_failed "string option" string | Stk_response stk_response_data

record stk_result =
  stk_success :: bool
  stk_message :: string
  stk_data :: stk_response_data

text \<open>\<^verbatim>\<open>a || b\<close> on strings.\<close>

definition or_string :: "string option \<Rightarrow> string \<Rightarrow> string" where
  "or_string a b = (case a of None \<Rightarrow> b | Some v \<Rightarrow> if v \<noteq> [] then v else b)"

text \<open>The local variable \<^verbatim>\<open>transactionType\<close>, as the service computes it from the reference.\<close>

definition transactionType_of :: "string option \<Rightarrow> string" where
  "transactionType_of accountRef =
     (case accountRef of
        None \<Rightarrow> ''CustomerPayBillOnline''
      | Some r \<Rightarrow>
          if r \<noteq> [] \<and> includes_str (toLowerCase r) ''till''
          then ''CustomerBuyGoodsOnline''
          else ''CustomerPayBillOnline'')"

text \<open>The handler of the \<^verbatim>\<open>catch\<close> block for an error thrown inside the service.\<close>

definition rethrow :: "js_error \<Rightarrow> js_error" where
  "rethrow e = (case e of Error m \<Rightarrow> Error (or_string (Some m) ''Failed to initiate STK Push''))"

text \<open>
  \<open>timestamp\<close> is \<^verbatim>\<open>moment().format('YYYYMMDDHHmmss')\<close>; \<open>auth\<close> and \<open>stk\<close> are the answers of the
  two endpoints, should they be asked.
\<close>

definition initiateSTKPush ::
  "config \<Rightarrow> token_cache \<Rightarrow> int \<Rightarrow> int \<Rightarrow> string \<Rightarrow> auth_reply \<Rightarrow> stk_reply
     \<Rightarrow> string \<Rightarrow> jsnumber \<Rightarrow> string option \<Rightarrow> string option
     \<Rightarrow> (js_error + stk_result) \<times> token_cache \<times> http_call list" where
  "initiateSTKPush cfg st now now' timestamp auth stk phoneNumber amount accountRef transDesc =
     (if phoneNumber = [] \<or> falsy_number amount
      then (Inl (rethrow (Error ''Phone number and amount are required'')), st, [])
      else
        (let transactionType = transactionType_of accountRef
         in case formatPhoneNumber phoneNumber of
              Inl e \<Rightarrow> (Inl (rethrow e), st, [])
            | Inr formattedPhone \<Rightarrow>
                if js_lt amount (Num 1) \<or> js_lt (Num 70000) amount
                then (Inl (rethrow (Error ''Amount must be between 1 and 70,000 KES'')), st, [])
                else
                  (case getAccessToken cfg st now now' auth of
                     (Inl e, st', calls) \<Rightarrow> (Inl (rethrow e), st', calls)
                   | (Inr token, st', calls) \<Rightarrow>
                       (let password =
                              generatePassword (businessShortCode cfg) (passkey cfg) timestamp;
                            payload =
                              \<lparr>BusinessShortCode = businessShortCode cfg,
                               Password = password,
                               Timestamp = timestamp,
                               TransactionType = ''CustomerPayBillOnline'',
                               Amount = math_round amount,
                               PartyA = formattedPhone,
                               PartyB = businessShortCode cfg,
                               PhoneNumber = formattedPhone,
                               CallBackURL = callbackUrl cfg,
                               AccountReference = or_string accountRef (accountReference cfg),
                               TransactionDesc = or_string transDesc (transactionDesc cfg)\<rparr>;
                            calls = calls @ [Post (stkPushUrl cfg) (''Bearer '' @ token) payload]
                        in case stk of
                             Stk_failed errorMessage message \<Rightarrow>
                               (if truthy_string errorMessage
                                then (Inl (Error (or_string errorMessage [])), st', calls)
                                else (Inl (Error (or_string (Some message)
                                                    ''Failed to initiate STK Push'')), st', calls))
                           | Stk_response d \<Rightarrow>
                               if ResponseCode d = ''0''
                               then (Inr \<lparr>stk_success = True,
                                          stk_message = ''STK Push initiated successfully'',
                                          stk_data = d\<rparr>, st', calls)
                               else (Inl (rethrow (Error (or_string (ResponseDescription d)
                                                           ''STK Push failed''))), st', calls)))))"

text \<open>The payloads among the requests sent.\<close>

fun posted :: "http_call list \<Rightarrow> stk_payload list" where
  "posted [] = []"
| "posted (Get url h # cs) = posted cs"
| "posted (Post url h p # cs) = p # posted cs"

subsection \<open>Callback processing\<close>

text \<open>
  Reading a property: \<open>None\<close> stands for the \<^verbatim>\<open>TypeError\<close> thrown on \<^verbatim>\<open>undefined\<close> and \<^verbatim>\<open>null\<close>.
  The names the service reads (\<^verbatim>\<open>Body\<close>, \<^verbatim>\<open>stkCallback\<close>, \<^verbatim>\<open>Item\<close>, \<^verbatim>\<open>Name\<close>, \<^verbatim>\<open>Value\<close>, ...)
  are no properties of a primitive value, an array or \<^verbatim>\<open>Object.prototype\<close>, so they are
  \<^verbatim>\<open>undefined\<close> unless they are own properties of an object.
\<close>

fun get_prop :: "js \<Rightarrow> string \<Rightarrow> js option" where
  "get_prop JUndefined k = None"
| "get_prop JNull k = None"
| "get_prop (JObject kvs) k = Some (case map_of kvs k of Some v \<Rightarrow> v | None \<Rightarrow> JUndefined)"
| "get_prop v k = Some JUndefined"

text \<open>
  \<^verbatim>\<open>paymentData\<close> starts as the object literal \<^verbatim>\<open>{}\<close>. It is modelled by its own properties, a map
  from keys to values (the order of enumeration is left out), and its prototype:
  \<^verbatim>\<open>Object.prototype\<close>, \<^verbatim>\<open>null\<close>, or an object or array that an item has put there.
\<close>

datatype js_prototype = Object_prototype | Null_prototype | Value_prototype js

record js_object =
  own_props :: "string \<rightharpoonup> js"
  prototype :: js_prototype

definition empty_object :: js_object where
  "empty_object = \<lparr>own_props = Map.empty, prototype = Object_prototype\<rparr>"

text \<open>
  An assignment to \<^verbatim>\<open>__proto__\<close> reaches the accessor of \<^verbatim>\<open>Object.prototype\<close> unless the chain of
  prototypes ends before (\<^verbatim>\<open>null\<close>) or an object on it has \<^verbatim>\<open>__proto__\<close> as an own property.
\<close>

fun reaches_accessor :: "js_prototype \<Rightarrow> bool" where
  "reaches_accessor Object_prototype = True"
| "reaches_accessor Null_prototype = False"
| "reaches_accessor (Value_prototype (JObject kvs)) = (map_of kvs ''__proto__'' = None)"
| "reaches_accessor (Value_prototype v) = True"

text \<open>
  The accessor takes an object, an array or \<^verbatim>\<open>null\<close> as the new prototype and ignores any
  other value.
\<close>

fun set_prototype :: "js \<Rightarrow> js_object \<Rightarrow> js_object" where
  "set_prototype JNull obj = obj\<lparr>prototype := Null_prototype\<rparr>"
| "set_prototype (JObject kvs) obj = obj\<lparr>prototype := Value_prototype (JObject kvs)\<rparr>"
| "set_prototype (JArray xs) obj = obj\<lparr>prototype := Value_prototype (JArray xs)\<rparr>"
| "set_prototype v obj = obj"

text \<open>
  The assignment \<^verbatim>\<open>obj[k] = v\<close>. Every property that the assignment can find on the chain of
  prototypes is a writable data property, except the accessor \<^verbatim>\<open>__proto__\<close>; so the assignment
  sets an own property unless the key is \<^verbatim>\<open>__proto__\<close>, no own property has that name and the
  accessor is reached.
\<close>

definition set_prop :: "string \<Rightarrow> js \<Rightarrow> js_object \<Rightarrow> js_object" where
  "set_prop k v obj =
     (if k = ''__proto__'' \<and> own_props obj k = None \<and> reaches_accessor (prototype obj)
      then set_prototype v obj
      else obj\<lparr>own_props := (own_props obj)(k \<mapsto> v)\<rparr>)"

text \<open>The body of the \<^verbatim>\<open>forEach\<close> callback.\<close>

definition store_item ::
  "(real \<Rightarrow> string) \<Rightarrow> js \<Rightarrow> js_object \<Rightarrow> js_object option" where
  "store_item ns item paymentData =
     (case get_prop item ''Name'' of
        None \<Rightarrow> None
      | Some name \<Rightarrow>
          (case get_prop item ''Value'' of
             None \<Rightarrow> None
           | Some v \<Rightarrow>
               if name = JString ''Amount'' then Some (set_prop ''amount'' v paymentData)
               else if name = JString ''MpesaReceiptNumber''
                 then Some (set_prop ''mpesaReceiptNumber'' v paymentData)
               else if name = JString ''TransactionDate''
                 then Some (set_prop ''transactionDate'' v paymentData)
               else if name = JString ''PhoneNumber''
                 then Some (set_prop ''phoneNumber'' v paymentData)
               else (case to_key ns name of
                       None \<Rightarrow> None
                     | Some k \<Rightarrow> Some (set_prop k v paymentData))))"

fun forEach_items ::
  "(real \<Rightarrow> string) \<Rightarrow> js list \<Rightarrow> js_object \<Rightarrow> js_object option" where
  "forEach_items ns [] paymentData = Some paymentData"
| "forEach_items ns (item # items) paymentData =
     (case store_item ns item paymentData of
        None \<Rightarrow> None
      | Some paymentData' \<Rightarrow> forEach_items ns items paymentData')"

text \<open>\<^verbatim>\<open>items.forEach(...)\<close>: only an array has the method.\<close>

definition extract_metadata :: "(real \<Rightarrow> string) \<Rightarrow> js \<Rightarrow> js_object option" where
  "extract_metadata ns stkCallback =
     (case get_prop stkCallback ''CallbackMetadata'' of
        None \<Rightarrow> None
      | Some callbackMetadata \<Rightarrow>
          (case get_prop callbackMetadata ''Item'' of
             Some (JArray items) \<Rightarrow> forEach_items ns items empty_object
           | _ \<Rightarrow> None))"

record callback_result =
  merchantRequestID :: js
  checkoutRequestID :: js
  resultCode :: js
  resultDesc :: js
  timestamp :: string
  paymentData :: "js_object option"
  status :: string

text \<open>The body of the \<^verbatim>\<open>try\<close> block; \<open>None\<close> when it throws. \<open>now\<close> is \<^verbatim>\<open>moment().toISOString()\<close>.\<close>

definition callback_body :: "(real \<Rightarrow> string) \<Rightarrow> string \<Rightarrow> js \<Rightarrow> callback_result option" where
  "callback_body ns now callbackData =
     (case get_prop callbackData ''Body'' of
        None \<Rightarrow> None
      | Some Body \<Rightarrow>
          (case get_prop Body ''stkCallback'' of
             None \<Rightarrow> None
           | Some stkCallback \<Rightarrow>
               (case (get_prop stkCallback ''MerchantRequestID'',
                      get_prop stkCallback ''CheckoutRequestID'',
                      get_prop stkCallback ''ResultCode'',
                      get_prop stkCallback ''ResultDesc'') of
                  (Some mrid, Some crid, Some code, Some desc) \<Rightarrow>
                    (let result =
                           \<lparr>merchantRequestID = mrid,
                            checkoutRequestID = crid,
                            resultCode = code,
                            resultDesc = desc,
                            timestamp = now,
                            paymentData = None,
                            status = []\<rparr>
                     in if code = JNumber (Num 0)
                        then (case extract_metadata ns stkCallback of
                                None \<Rightarrow> None
                              | Some pd \<Rightarrow>
                                  Some (result\<lparr>paymentData := Some pd, status := ''SUCCESS''\<rparr>))
                        else Some (result\<lparr>status := ''FAILED''\<rparr>))
                | _ \<Rightarrow> None)))"

definition processCallback ::
  "(real \<Rightarrow> string) \<Rightarrow> string \<Rightarrow> js \<Rightarrow> js_error + callback_result" where
  "processCallback ns now callbackData =
     (case callback_body ns now callbackData of
        None \<Rightarrow> Inl (Error ''Failed to process M-Pesa callback'')
      | Some result \<Rightarrow> Inr result)"

section \<open>The callback endpoint (controllers/mpesaController.js)\<close>

record callback_response =
  http_status :: nat
  success :: bool
  message :: string
  data :: "callback_result option"
  error :: "string option"

definition handleCallback :: "(real \<Rightarrow> string) \<Rightarrow> string \<Rightarrow> js \<Rightarrow> callback_response" where
  "handleCallback ns now body =
     (case processCallback ns now body of
        Inr result \<Rightarrow>
          \<lparr>http_status = 200, success = True, message = ''Callback processed successfully'',
           data = Some result, error = None\<rparr>
      | Inl (Error m) \<Rightarrow>
          \<lparr>http_status = 200, success = False, message = ''Callback processing failed'',
           data = None, error = Some m\<rparr>)"

section \<open>Notions of the specification\<close>

text \<open>The value is a number and no NaN; it is an integer (\<^verbatim>\<open>Number.isInteger\<close>).\<close>

definition is_numeric :: "js \<Rightarrow> bool" where
  "is_numeric v = (case v of JNumber n \<Rightarrow> n \<noteq> NaN | _ \<Rightarrow> False)"

definition is_integer :: "js \<Rightarrow> bool" where
  "is_integer v = (case v of JNumber (Num r) \<Rightarrow> of_int \<lfloor>r\<rfloor> = r | _ \<Rightarrow> False)"

text \<open>
  The two states of the token cache. The service tests \<^verbatim>\<open>this.accessToken && this.tokenExpiry\<close>,
  so the cache holds a token when both fields are set and the token is not the empty string.
\<close>

datatype cache_state = EMPTY | VALID string moment

definition cache_state_of :: "token_cache \<Rightarrow> cache_state" where
  "cache_state_of st =
     (case (accessToken st, tokenExpiry st) of
        (Some tok, Some expiry) \<Rightarrow> if tok \<noteq> [] then VALID tok expiry else EMPTY
      | _ \<Rightarrow> EMPTY)"

text \<open>The credential exchange fails: the request fails or its answer carries no token.\<close>

fun exchange_failed :: "auth_reply \<Rightarrow> bool" where
  "exchange_failed Auth_failed = True"
| "exchange_failed (Auth_response None expires_in) = True"
| "exchange_failed (Auth_response (Some tok) expires_in) = (tok = [])"

text \<open>The request of the credential exchange: basic authentication over client id and secret.\<close>

definition credential_exchange :: "config \<Rightarrow> http_call" where
  "credential_exchange cfg =
     Get (authUrl cfg) (''Basic '' @ base64 (consumerKey cfg @ '':'' @ consumerSecret cfg))"





text \<open>A timestamp lies in the window \<open>(now - w, now]\<close>.\<close>

definition in_window :: "int \<Rightarrow> int \<Rightarrow> int \<Rightarrow> bool" where
  "in_window w now t = (now - w < t \<and> t \<le> now)"

text \<open>The time, in milliseconds, until a timestamp leaves the window.\<close>

definition time_until_exit :: "int \<Rightarrow> int \<Rightarrow> int \<Rightarrow> int" where
  "time_until_exit w now t = t + w - now"

text \<open>The record of a client, empty when the store has none.\<close>

definition record_of :: "'k rate_store \<Rightarrow> 'k \<Rightarrow> int list" where
  "record_of store clientIp = (case store clientIp of Some r \<Rightarrow> r | None \<Rightarrow> [])"

text \<open>
  The store is chronological at \<open>now\<close>: every record is in the order of arrival and holds no
  time after \<open>now\<close>, as is the case when the clock never runs backwards.
\<close>

definition chronological :: "'k rate_store \<Rightarrow> int \<Rightarrow> bool" where
  "chronological store now =
     (\<forall>clientIp r. store clientIp = Some r \<longrightarrow> sorted r \<and> (\<forall>t\<in>set r. t \<le> now))"

section \<open>Sample data\<close>

definition sample_config :: config where
  "sample_config =
     \<lparr>consumerKey = ''key'', consumerSecret = ''secret'', businessShortCode = ''174379'',
      passkey = ''passkey'', callbackUrl = ''https://example.com/api/mpesa/callback'',
      accountReference = ''Payment'', transactionDesc = ''Payment'',
      authUrl = ''https://sandbox.safaricom.co.ke/oauth/v1/generate'',
      stkPushUrl = ''https://sandbox.safaricom.co.ke/mpesa/stkpush/v1/processrequest'',
      queryUrl = ''https://sandbox.safaricom.co.ke/mpesa/stkpushquery/v1/query''\<rparr>"

definition empty_cache :: token_cache where
  "empty_cache = \<lparr>accessToken = None, tokenExpiry = None\<rparr>"

definition sample_stk_reply :: stk_reply where
  "sample_stk_reply =
     Stk_response \<lparr>ResponseCode = ''0'', MerchantRequestID = ''29115-34620561-1'',
                   CheckoutRequestID = ''ws_CO_191220191020363925'',
                   ResponseDescription = Some ''Success. Request accepted for processing'',
                   CustomerMessage = ''Success. Request accepted for processing''\<rparr>"

text \<open>A notification of a successful payment that carries no metadata.\<close>

definition callback_without_metadata :: js where
  "callback_without_metadata =
     JObject [(''Body'', JObject [(''stkCallback'',
       JObject [(''MerchantRequestID'', JString ''29115-34620561-1''),
                (''CheckoutRequestID'', JString ''ws_CO_191220191020363925''),
                (''ResultCode'', JNumber (Num 0)),
                (''ResultDesc'', JString ''The service request is processed successfully.'')])])]"


definition callback_paid :: js where
  "callback_paid =
     JObject [(''Body'', JObject [(''stkCallback'',
       JObject [(''MerchantRequestID'', JString ''29115-34620561-1''),
                (''CheckoutRequestID'', JString ''ws_CO_191220191020363925''),
                (''ResultCode'', JNumber (Num 0)),
                (''ResultDesc'', JString ''The service request is processed successfully.''),
                (''CallbackMetadata'', JObject [(''Item'', JArray
                   [JObject [(''Name'', JString ''Amount''), (''Value'', JNumber (Num 1))],
                    JObject [(''Name'', JString ''MpesaReceiptNumber''),
                             (''Value'', JString ''NLJ7RT61SV'')]])])])])]"

text \<open>The formatting of numbers plays no part for these notifications.\<close>

definition no_numbers :: "real \<Rightarrow> string" where
  "no_numbers r = []"

text \<open>A conversion of strings to numbers that is only asked for the string \<^verbatim>\<open>500\<close>.\<close>

definition string_500 :: "string \<Rightarrow> jsnumber" where
  "string_500 s = (if s = ''500'' then Num 500 else NaN)"



text \<open>Two items named \<^verbatim>\<open>__proto__\<close>: the first clears the prototype, the second is stored.\<close>

definition callback_proto_twice :: js where
  "callback_proto_twice =
     JObject [(''Body'', JObject [(''stkCallback'',
       JObject [(''ResultCode'', JNumber (Num 0)),
                (''CallbackMetadata'', JObject [(''Item'', JArray
                   [JObject [(''Name'', JString ''__proto__''), (''Value'', JNull)],
                    JObject [(''Name'', JString ''__proto__''), (''Value'', JString ''x'')]])])])])]"

section \<open>Properties of the helpers\<close>

subsection \<open>Base64 is injective\<close>

lemma distinct_b64chars: "distinct b64chars"
  by (simp add: b64chars_def)

lemma length_b64chars: "length b64chars = 64"
  by (simp add: b64chars_def)

lemma b64char_inj: "m < 64 \<Longrightarrow> n < 64 \<Longrightarrow> b64char m = b64char n \<longleftrightarrow> m = n"
  unfolding b64char_def using distinct_b64chars length_b64chars
  by (simp add: nth_eq_iff_index_eq)

lemma b64char_not_pad: "n < 64 \<Longrightarrow> b64char n \<noteq> CHR ''=''"
proof -
  assume "n < 64"
  then have "b64char n \<in> set b64chars"
    unfolding b64char_def using length_b64chars by simp
  moreover have "CHR ''='' \<notin> set b64chars"
    by (simp add: b64chars_def)
  ultimately show ?thesis by auto
qed

lemma pack_inj:
  fixes x y x' y' k :: nat
  assumes "y < k" "y' < k" "x * k + y = x' * k + y'"
  shows "x = x' \<and> y = y'"
proof -
  have "(x * k + y) div k = x" "(x' * k + y') div k = x'"
    using assms(1,2) by simp_all
  then have "x = x'" using assms(3) by metis
  then show ?thesis using assms(3) by simp
qed

lemma div_mod_eqI:
  fixes a a' k :: nat
  assumes "a div k = a' div k" "a mod k = a' mod k"
  shows "a = a'"
  using assms by (metis div_mult_mod_eq)

lemma sextets_inj:
  fixes a b c a' b' c' :: nat
  assumes "b < 256" "c < 256" "b' < 256" "c' < 256"
    and e1: "a div 4 = a' div 4"
    and e2: "(a mod 4) * 16 + b div 16 = (a' mod 4) * 16 + b' div 16"
    and e3: "(b mod 16) * 4 + c div 64 = (b' mod 16) * 4 + c' div 64"
    and e4: "c mod 64 = c' mod 64"
  shows "a = a' \<and> b = b' \<and> c = c'"
proof -
  have "b div 16 < 16" "b' div 16 < 16" "c div 64 < 4" "c' div 64 < 4"
    using assms(1-4) by simp_all
  then have "a mod 4 = a' mod 4 \<and> b div 16 = b' div 16"
    "b mod 16 = b' mod 16 \<and> c div 64 = c' div 64"
    using pack_inj [OF _ _ e2] pack_inj [OF _ _ e3] by simp_all
  then show ?thesis
    using e1 e4 div_mod_eqI [of a 4 a'] div_mod_eqI [of b 16 b'] div_mod_eqI [of c 64 c']
    by blast
qed

lemma sextet_bounds:
  fixes a b :: nat
  assumes "a < 256" "b < 256"
  shows "a div 4 < 64" "(a mod 4) * 16 + b div 16 < 64" "(a mod 16) * 4 + b div 64 < 64"
    "a mod 64 < 64" "(a mod 4) * 16 < 64" "(a mod 16) * 4 < 64"
proof -
  have "a mod 4 < 4" "a mod 16 < 16" "b div 16 < 16" "b div 64 < 4"
    using assms by simp_all
  then show "(a mod 4) * 16 + b div 16 < 64" "(a mod 16) * 4 + b div 64 < 64"
    "(a mod 4) * 16 < 64" "(a mod 16) * 4 < 64"
    by linarith+
  show "a div 4 < 64" "a mod 64 < 64" using assms by simp_all
qed

lemma char_sextets:
  "(of_char a :: nat) div 4 < 64"
  "((of_char a :: nat) mod 4) * 16 + (of_char b :: nat) div 16 < 64"
  "((of_char a :: nat) mod 16) * 4 + (of_char b :: nat) div 64 < 64"
  "(of_char a :: nat) mod 64 < 64"
  "((of_char a :: nat) mod 4) * 16 < 64"
  "((of_char a :: nat) mod 16) * 4 < 64"
  using sextet_bounds [of "of_char a" "of_char b"] by simp_all

lemma base64_inj: "base64 xs = base64 ys \<Longrightarrow> xs = ys"
proof (induction xs arbitrary: ys rule: base64.induct)
  case (1 a b c xs)
  show ?case
  proof (cases ys rule: base64.cases)
    case (1 a' b' c' ys')
    with "1.prems" have eqs:
      "b64char (of_char a div 4) = b64char (of_char a' div 4)"
      "b64char ((of_char a mod 4) * 16 + of_char b div 16)
         = b64char ((of_char a' mod 4) * 16 + of_char b' div 16)"
      "b64char ((of_char b mod 16) * 4 + of_char c div 64)
         = b64char ((of_char b' mod 16) * 4 + of_char c' div 64)"
      "b64char (of_char c mod 64) = b64char (of_char c' mod 64)"
      and rest: "base64 xs = base64 ys'"
      by simp_all
    from eqs have
      "(of_char a :: nat) div 4 = of_char a' div 4"
      "((of_char a :: nat) mod 4) * 16 + of_char b div 16 = (of_char a' mod 4) * 16 + of_char b' div 16"
      "((of_char b :: nat) mod 16) * 4 + of_char c div 64 = (of_char b' mod 16) * 4 + of_char c' div 64"
      "(of_char c :: nat) mod 64 = of_char c' mod 64"
      by (simp_all add: b64char_inj char_sextets)
    then have "(of_char a :: nat) = of_char a' \<and> (of_char b :: nat) = of_char b'
        \<and> (of_char c :: nat) = of_char c'"
      by (intro sextets_inj) simp_all
    moreover have "xs = ys'" using rest "1.IH" by simp
    ultimately show ?thesis using 1 by simp
  next
    case (2 a' b')
    with "1.prems" show ?thesis using b64char_not_pad [OF char_sextets(4), of c] by simp
  next
    case (3 a')
    with "1.prems" show ?thesis using b64char_not_pad [OF char_sextets(4), of c] by simp
  next
    case 4
    with "1.prems" show ?thesis by simp
  qed
next
  case (2 a b)
  show ?case
  proof (cases ys rule: base64.cases)
    case (1 a' b' c' ys')
    with "2.prems" show ?thesis using b64char_not_pad [OF char_sextets(4), of c'] by simp
  next
    case (2 a' b')
    with "2.prems" have eqs:
      "b64char (of_char a div 4) = b64char (of_char a' div 4)"
      "b64char ((of_char a mod 4) * 16 + of_char b div 16)
         = b64char ((of_char a' mod 4) * 16 + of_char b' div 16)"
      "b64char ((of_char b mod 16) * 4) = b64char ((of_char b' mod 16) * 4)"
      by simp_all
    then have
      "(of_char a :: nat) div 4 = of_char a' div 4"
      "((of_char a :: nat) mod 4) * 16 + of_char b div 16 = (of_char a' mod 4) * 16 + of_char b' div 16"
      "((of_char b :: nat) mod 16) * 4 + 0 div 64 = (of_char b' mod 16) * 4 + 0 div 64"
      by (simp_all add: b64char_inj char_sextets)
    then have "(of_char a :: nat) = of_char a' \<and> (of_char b :: nat) = of_char b' \<and> (0::nat) = 0"
      by (intro sextets_inj) simp_all
    then show ?thesis using 2 by simp
  next
    case (3 a')
    with "2.prems" show ?thesis using b64char_not_pad [OF char_sextets(6), of b] by simp
  next
    case 4
    with "2.prems" show ?thesis by simp
  qed
next
  case (3 a)
  show ?case
  proof (cases ys rule: base64.cases)
    case (1 a' b' c' ys')
    with "3.prems" show ?thesis
      using b64char_not_pad [OF char_sextets(4), of c'] by simp
  next
    case (2 a' b')
    with "3.prems" show ?thesis using b64char_not_pad [OF char_sextets(6), of b'] by simp
  next
    case (3 a')
    with "3.prems" have eqs:
      "b64char (of_char a div 4) = b64char (of_char a' div 4)"
      "b64char ((of_char a mod 4) * 16) = b64char ((of_char a' mod 4) * 16)"
      by simp_all
    then have
      "(of_char a :: nat) div 4 = of_char a' div 4"
      "((of_char a :: nat) mod 4) * 16 + 0 div 16 = (of_char a' mod 4) * 16 + 0 div 16"
      by (simp_all add: b64char_inj char_sextets)
    then have "(of_char a :: nat) = of_char a' \<and> (0::nat) = 0 \<and> (0::nat) = 0"
      by (intro sextets_inj) simp_all
    then show ?thesis using 3 by simp
  next
    case 4
    with "3.prems" show ?thesis by simp
  qed
next
  case 4
  then show ?case by (cases ys rule: base64.cases) simp_all
qed

subsection \<open>Phone numbers\<close>

lemma regex_match_msisdn:
  assumes "regex_match msisdn_regex r"
  shows "length r = 12 \<and> take 3 r = ''254'' \<and> (\<forall>c\<in>set r. is_digit c)"
proof -
  have d: "is_digit CHR ''2''" "is_digit CHR ''5''" "is_digit CHR ''4''"
    by (simp_all add: is_digit_def)
  from assms show ?thesis
    by (auto simp: regex_match_def msisdn_regex_def eval_nat_numeral list_all2_Cons1 d)
qed

text \<open>
  Claim C8. The formatter maps 0712345678, +254712345678 and 712345678 to 254712345678 and
  fails on 123; on every string it either returns twelve digits that begin with 254 or fails
  with the format error.
\<close>

theorem formatPhoneNumber_canonical:
  "formatPhoneNumber ''0712345678'' = Inr ''254712345678''
   \<and> formatPhoneNumber ''+254712345678'' = Inr ''254712345678''
   \<and> formatPhoneNumber ''712345678'' = Inr ''254712345678''
   \<and> formatPhoneNumber ''123'' = Inl (Error ''Invalid phone number format. Use 254XXXXXXXXX format'')
   \<and> (\<forall>s. (\<exists>r. formatPhoneNumber s = Inr r \<and> length r = 12 \<and> take 3 r = ''254''
               \<and> (\<forall>c\<in>set r. is_digit c))
          \<or> formatPhoneNumber s = Inl (Error ''Invalid phone number format. Use 254XXXXXXXXX format''))"
proof -
  have ex: "formatPhoneNumber ''0712345678'' = Inr ''254712345678''"
    "formatPhoneNumber ''+254712345678'' = Inr ''254712345678''"
    "formatPhoneNumber ''712345678'' = Inr ''254712345678''"
    "formatPhoneNumber ''123'' = Inl (Error ''Invalid phone number format. Use 254XXXXXXXXX format'')"
    by (simp_all add: formatPhoneNumber_def startsWith_def is_digit_def regex_match_def
        msisdn_regex_def numeral_eq_Suc)
  have gen: "(\<exists>r. formatPhoneNumber s = Inr r \<and> length r = 12 \<and> take 3 r = ''254''
               \<and> (\<forall>c\<in>set r. is_digit c))
          \<or> formatPhoneNumber s = Inl (Error ''Invalid phone number format. Use 254XXXXXXXXX format'')"
    for s
  proof (cases "formatPhoneNumber s")
    case (Inl e)
    then show ?thesis
      by (simp add: formatPhoneNumber_def Let_def split: if_splits)
  next
    case (Inr r)
    then have "regex_match msisdn_regex r"
      by (simp add: formatPhoneNumber_def Let_def split: if_splits)
    with Inr regex_match_msisdn [of r] show ?thesis by simp
  qed
  from ex gen show ?thesis by blast
qed

theorem formatPhoneNumber_canonical_witness:
  "\<exists>r. formatPhoneNumber ''+254 712-345-678'' = Inr r \<and> length r = 12 \<and> take 3 r = ''254''
       \<and> (\<forall>c\<in>set r. is_digit c)"
proof -
  have "formatPhoneNumber ''+254 712-345-678''
      \<noteq> Inl (Error ''Invalid phone number format. Use 254XXXXXXXXX format'')"
    by (simp add: formatPhoneNumber_def startsWith_def is_digit_def regex_match_def
        msisdn_regex_def numeral_eq_Suc)
  with formatPhoneNumber_canonical show ?thesis by blast
qed

subsection \<open>Amounts\<close>

text \<open>
  Against claim C3 as stated: the validator accepts 1.5, which is not an integer, and the
  value true, which is not a number.
\<close>

theorem isValidAmount_fraction_counterexample:
  "isValidAmount no_numbers string_500 (JNumber (Num (3 / 2))) = Some True
   \<and> \<not> is_integer (JNumber (Num (3 / 2)))
   \<and> isValidAmount no_numbers string_500 (JBool True) = Some True
   \<and> \<not> is_numeric (JBool True)"
  by (simp add: isValidAmount_def isNaN_def is_integer_def is_numeric_def)

text \<open>
  Claim C3, amended. The validator accepts a value exactly when the number it is converted to
  lies between 1 and 70000, both included, whether an integer or not. It accepts every integer
  of that range; it rejects 0, every negative number, NaN and 70001. Of the values that are no
  numbers it rejects undefined, null and false and accepts true; a string counts as the number
  it converts to, an array as the string of its joined elements, an object as the string
  [object Object]; an object with an own toString cannot be converted and the validator
  throws.
\<close>

theorem isValidAmount_range:
  "(isValidAmount ns sn v = Some True
      \<longleftrightarrow> (\<exists>r. to_number ns sn v = Some (Num r) \<and> 1 \<le> r \<and> r \<le> 70000))
   \<and> (isValidAmount ns sn v = None \<longleftrightarrow> to_number ns sn v = None)
   \<and> isValidAmount ns sn (JNumber x) = Some (\<exists>r. x = Num r \<and> 1 \<le> r \<and> r \<le> 70000)
   \<and> (1 \<le> n \<and> n \<le> 70000 \<longrightarrow> isValidAmount ns sn (JNumber (Num (of_int n))) = Some True)
   \<and> isValidAmount ns sn (JNumber (Num 0)) = Some False
   \<and> (r < 0 \<longrightarrow> isValidAmount ns sn (JNumber (Num r)) = Some False)
   \<and> isValidAmount ns sn (JNumber NaN) = Some False
   \<and> isValidAmount ns sn (JNumber (Num 70001)) = Some False
   \<and> isValidAmount ns sn JUndefined = Some False
   \<and> isValidAmount ns sn JNull = Some False
   \<and> isValidAmount ns sn (JBool b) = Some b
   \<and> isValidAmount ns sn (JString s) = Some (\<exists>r. sn s = Num r \<and> 1 \<le> r \<and> r \<le> 70000)
   \<and> isValidAmount ns sn (JArray []) = isValidAmount ns sn (JString [])
   \<and> isValidAmount ns sn (JArray [JNumber (Num q)]) = isValidAmount ns sn (JString (ns q))
   \<and> isValidAmount ns sn (JArray [JString s]) = isValidAmount ns sn (JString s)
   \<and> (map_of kvs ''toString'' = None \<longrightarrow>
        isValidAmount ns sn (JObject kvs) = isValidAmount ns sn (JString ''[object Object]''))
   \<and> (map_of kvs ''toString'' \<noteq> None \<longrightarrow> isValidAmount ns sn (JObject kvs) = None)"
proof -
  have range: "(\<not> isNaN y \<and> js_le (Num 1) y \<and> js_le y (Num 70000))
      \<longleftrightarrow> (\<exists>r. y = Num r \<and> 1 \<le> r \<and> r \<le> 70000)" for y
    by (cases y) (auto simp: isNaN_def)
  have 1: "isValidAmount ns sn v = Some True
      \<longleftrightarrow> (\<exists>r. to_number ns sn v = Some (Num r) \<and> 1 \<le> r \<and> r \<le> 70000)"
    by (cases "to_number ns sn v") (auto simp: isValidAmount_def range)
  have 2: "isValidAmount ns sn v = None \<longleftrightarrow> to_number ns sn v = None"
    by (simp add: isValidAmount_def split: option.splits)
  have 3: "isValidAmount ns sn (JNumber y) = Some (\<exists>r. y = Num r \<and> 1 \<le> r \<and> r \<le> 70000)" for y
    by (simp add: isValidAmount_def range)
  have 4: "isValidAmount ns sn (JString t) = Some (\<exists>r. sn t = Num r \<and> 1 \<le> r \<and> r \<le> 70000)" for t
    by (simp add: isValidAmount_def range)
  have 5: "isValidAmount ns sn JUndefined = Some False" "isValidAmount ns sn JNull = Some False"
    "isValidAmount ns sn (JBool b) = Some b"
    by (simp_all add: isValidAmount_def isNaN_def)
  have 6: "isValidAmount ns sn (JArray []) = isValidAmount ns sn (JString [])"
    "isValidAmount ns sn (JArray [JNumber (Num q)]) = isValidAmount ns sn (JString (ns q))"
    "isValidAmount ns sn (JArray [JString s]) = isValidAmount ns sn (JString s)"
    by (simp_all add: isValidAmount_def)
  have 7: "map_of kvs ''toString'' = None \<longrightarrow>
        isValidAmount ns sn (JObject kvs) = isValidAmount ns sn (JString ''[object Object]'')"
    "map_of kvs ''toString'' \<noteq> None \<longrightarrow> isValidAmount ns sn (JObject kvs) = None"
    by (simp_all add: isValidAmount_def)
  have 8: "1 \<le> n \<and> n \<le> 70000 \<longrightarrow> isValidAmount ns sn (JNumber (Num (of_int n))) = Some True"
    "isValidAmount ns sn (JNumber (Num 0)) = Some False"
    "r < 0 \<longrightarrow> isValidAmount ns sn (JNumber (Num r)) = Some False"
    "isValidAmount ns sn (JNumber NaN) = Some False"
    "isValidAmount ns sn (JNumber (Num 70001)) = Some False"
    by (simp_all add: 3)
  from 1 2 3 4 5 6 7 8 show ?thesis by blast
qed

theorem isValidAmount_range_witness:
  "isValidAmount no_numbers string_500 (JNumber (Num (of_int 1))) = Some True
   \<and> isValidAmount no_numbers string_500 (JNumber (Num (- 5))) = Some False
   \<and> isValidAmount no_numbers string_500 (JString ''500'') = Some True
   \<and> isValidAmount no_numbers string_500 (JString ''abc'') = Some False
   \<and> isValidAmount no_numbers string_500 (JBool True) = Some True
   \<and> isValidAmount no_numbers string_500 (JObject [(''toString'', JNull)]) = None"
  using isValidAmount_range [of no_numbers string_500 "JBool True" "Num 70000" 1 "- 5" True
      "''500''" 5 "[(''toString'', JNull)]"]
    isValidAmount_range [of no_numbers string_500 "JBool True" "Num 70000" 1 "- 5" True
      "''abc''" 5 "[(''toString'', JNull)]"]
  by (simp add: string_500_def)

text \<open>
  On numbers, the guards of the service reject exactly what the validator rejects.
\<close>

lemma service_amount_guard:
  "(falsy_number v \<or> js_lt v (Num 1) \<or> js_lt (Num 70000) v)
     \<longleftrightarrow> isValidAmount ns sn (JNumber v) = Some False"
  by (cases v) (auto simp: isValidAmount_def isNaN_def falsy_number_def)

subsection \<open>Passwords\<close>

text \<open>
  Against claim C4 as stated: two different triples with the same concatenation have the same
  password.
\<close>

theorem generatePassword_collision_counterexample:
  "(''1743'', ''79abc'', ''20240101120000'') \<noteq> (''17437'', ''9abc'', ''20240101120000'')
   \<and> generatePassword ''1743'' ''79abc'' ''20240101120000''
     = generatePassword ''17437'' ''9abc'' ''20240101120000''"
  by (simp add: generatePassword_def)

text \<open>
  Claim C4, amended. The password is the base64 encoding of the concatenation of short code,
  passkey and timestamp, and two triples have the same password exactly when their
  concatenations are equal.
\<close>

theorem generatePassword_injective_on_concatenation:
  "generatePassword s p t = base64 (s @ p @ t)
   \<and> (generatePassword s1 p1 t1 = generatePassword s2 p2 t2 \<longleftrightarrow> s1 @ p1 @ t1 = s2 @ p2 @ t2)"
  using base64_inj [of "s1 @ p1 @ t1" "s2 @ p2 @ t2"]
  by (auto simp: generatePassword_def)

text \<open>
  With short codes of one length and passkeys of one length, different triples have different
  passwords.
\<close>

lemma generatePassword_fixed_width:
  assumes "length s1 = length s2" "length p1 = length p2"
  shows "generatePassword s1 p1 t1 = generatePassword s2 p2 t2 \<longleftrightarrow> (s1, p1, t1) = (s2, p2, t2)"
  using assms base64_inj [of "s1 @ p1 @ t1" "s2 @ p2 @ t2"]
  by (auto simp: generatePassword_def)

lemma generatePassword_example:
  "generatePassword ''174379'' ''bfb279'' ''20240101120000''
     = ''MTc0Mzc5YmZiMjc5MjAyNDAxMDExMjAwMDA=''"
  by (simp add: generatePassword_def b64char_def b64chars_def)

section \<open>Properties of the token cache\<close>

lemma requestToken_call:
  "snd (snd (requestToken cfg st now' reply)) = [credential_exchange cfg]"
  by (cases reply rule: exchange_failed.cases)
    (simp_all add: requestToken_def credential_exchange_def Let_def)

lemma requestToken_success:
  assumes "tok' \<noteq> []"
  shows "requestToken cfg st now' (Auth_response (Some tok') lifetime)
         = (Inr tok',
            st\<lparr>accessToken := Some tok', tokenExpiry := Some (add_seconds now' (lifetime - 60))\<rparr>,
            [credential_exchange cfg])"
  using assms by (simp add: requestToken_def credential_exchange_def)

lemma getAccessToken_miss:
  assumes "cache_state_of st = EMPTY
           \<or> (\<exists>tok expiry. cache_state_of st = VALID tok expiry \<and> \<not> isBefore now expiry)"
  shows "getAccessToken cfg st now now' reply = requestToken cfg st now' reply"
  using assms
  by (auto simp: getAccessToken_def cache_state_of_def split: option.splits if_splits)

text \<open>
  Against claim C5 as stated: with a lifetime of 10^13 seconds the stored expiry is an invalid
  date, not the clock plus the lifetime minus 60 seconds, and a call long before that instant
  refreshes again.
\<close>

theorem getAccessToken_far_expiry_counterexample:
  "getAccessToken sample_config empty_cache 1000 1005 (Auth_response (Some ''tok'') 10000000000000)
     = (Inr ''tok'', \<lparr>accessToken = Some ''tok'', tokenExpiry = Some Invalid_date\<rparr>,
        [credential_exchange sample_config])
   \<and> Invalid_date \<noteq> Instant (1005 + (10000000000000 - 60) * 1000)
   \<and> 2000 < 1005 + (10000000000000 - 60) * (1000 :: int)
   \<and> snd (snd (getAccessToken sample_config
        \<lparr>accessToken = Some ''tok'', tokenExpiry = Some Invalid_date\<rparr> 2000 2005 Auth_failed))
      = [credential_exchange sample_config]"
  by (simp add: getAccessToken_def requestToken_def credential_exchange_def empty_cache_def
      add_seconds_def)

text \<open>
  Claim C5, amended. With a cached token and the clock strictly before its expiry, the cached
  token is returned, the cache is unchanged and no request is sent. With an empty cache, an
  expired token or an invalid expiry exactly one request, the credential exchange, is sent;
  when it delivers a token, that token is returned and stored, with the expiry clock plus
  lifetime minus 60 seconds if this instant is a date (at most 8.64e15 ms from the epoch), and
  with an invalid expiry otherwise.
\<close>

theorem getAccessToken_cache:
  "(cache_state_of st = VALID tok (Instant expiry) \<and> now < expiry \<longrightarrow>
      getAccessToken cfg st now now' reply = (Inr tok, st, []))
   \<and> (cache_state_of st = EMPTY
        \<or> (\<exists>tok expiry. cache_state_of st = VALID tok (Instant expiry) \<and> expiry \<le> now)
        \<or> (\<exists>tok. cache_state_of st = VALID tok Invalid_date) \<longrightarrow>
        snd (snd (getAccessToken cfg st now now' reply)) = [credential_exchange cfg]
        \<and> (\<forall>tok' lifetime. reply = Auth_response (Some tok') lifetime \<and> tok' \<noteq> [] \<longrightarrow>
              fst (getAccessToken cfg st now now' reply) = Inr tok'
              \<and> (\<bar>now' + (lifetime - 60) * 1000\<bar> \<le> 8640000000000000 \<longrightarrow>
                   cache_state_of (fst (snd (getAccessToken cfg st now now' reply)))
                     = VALID tok' (Instant (now' + (lifetime - 60) * 1000)))
              \<and> (\<bar>now' + (lifetime - 60) * 1000\<bar> > 8640000000000000 \<longrightarrow>
                   cache_state_of (fst (snd (getAccessToken cfg st now now' reply)))
                     = VALID tok' Invalid_date)))"
proof (intro conjI impI allI)
  assume "cache_state_of st = VALID tok (Instant expiry) \<and> now < expiry"
  then show "getAccessToken cfg st now now' reply = (Inr tok, st, [])"
    by (auto simp: getAccessToken_def cache_state_of_def split: option.splits if_splits)
next
  assume "cache_state_of st = EMPTY
        \<or> (\<exists>tok expiry. cache_state_of st = VALID tok (Instant expiry) \<and> expiry \<le> now)
        \<or> (\<exists>tok. cache_state_of st = VALID tok Invalid_date)"
  then have "cache_state_of st = EMPTY
           \<or> (\<exists>tok expiry. cache_state_of st = VALID tok expiry \<and> \<not> isBefore now expiry)"
    by fastforce
  then have miss: "getAccessToken cfg st now now' reply = requestToken cfg st now' reply"
    by (rule getAccessToken_miss)
  show "snd (snd (getAccessToken cfg st now now' reply)) = [credential_exchange cfg]"
    by (simp add: miss requestToken_call)
  fix tok' lifetime
  assume ok: "reply = Auth_response (Some tok') lifetime \<and> tok' \<noteq> []"
  then have r: "getAccessToken cfg st now now' reply
         = (Inr tok',
            st\<lparr>accessToken := Some tok', tokenExpiry := Some (add_seconds now' (lifetime - 60))\<rparr>,
            [credential_exchange cfg])"
    using miss requestToken_success [of tok' cfg st now' lifetime] by simp
  show "fst (getAccessToken cfg st now now' reply) = Inr tok'"
    by (simp add: r)
  from ok have ne: "tok' \<noteq> []" by simp
  have st': "cache_state_of (fst (snd (getAccessToken cfg st now now' reply)))
      = VALID tok' (add_seconds now' (lifetime - 60))"
    using ne by (simp add: r cache_state_of_def)
  show "cache_state_of (fst (snd (getAccessToken cfg st now now' reply)))
          = VALID tok' (Instant (now' + (lifetime - 60) * 1000))"
    if "\<bar>now' + (lifetime - 60) * 1000\<bar> \<le> 8640000000000000"
    using that unfolding st' add_seconds_def Let_def by (simp add: abs_le_iff)
  show "cache_state_of (fst (snd (getAccessToken cfg st now now' reply))) = VALID tok' Invalid_date"
    if "\<bar>now' + (lifetime - 60) * 1000\<bar> > 8640000000000000"
    using that unfolding st' add_seconds_def Let_def by auto
qed

theorem getAccessToken_cache_witness:
  "getAccessToken sample_config \<lparr>accessToken = Some ''tok'', tokenExpiry = Some (Instant 2000)\<rparr>
       1000 1005 Auth_failed
     = (Inr ''tok'', \<lparr>accessToken = Some ''tok'', tokenExpiry = Some (Instant 2000)\<rparr>, [])
   \<and> snd (snd (getAccessToken sample_config
        \<lparr>accessToken = Some ''tok'', tokenExpiry = Some (Instant 2000)\<rparr>
        2000 2005 (Auth_response (Some ''new'') 3599))) = [credential_exchange sample_config]
   \<and> cache_state_of (fst (snd (getAccessToken sample_config
        \<lparr>accessToken = Some ''tok'', tokenExpiry = Some (Instant 2000)\<rparr> 2000 2005
        (Auth_response (Some ''new'') 3599)))) = VALID ''new'' (Instant 3541005)
   \<and> cache_state_of (fst (snd (getAccessToken sample_config empty_cache 1000 1005
        (Auth_response (Some ''tok'') 10000000000000)))) = VALID ''tok'' Invalid_date"
proof -
  let ?st = "\<lparr>accessToken = Some ''tok'', tokenExpiry = Some (Instant 2000)\<rparr>"
  have s: "cache_state_of ?st = VALID ''tok'' (Instant 2000)"
    and e: "cache_state_of empty_cache = EMPTY"
    by (simp_all add: cache_state_of_def empty_cache_def)
  from s getAccessToken_cache [of ?st "''tok''" 2000 1000 sample_config 1005 Auth_failed]
  have 1: "getAccessToken sample_config ?st 1000 1005 Auth_failed = (Inr ''tok'', ?st, [])"
    by simp
  from s getAccessToken_cache [of ?st "''tok''" 2000 2000 sample_config 2005
      "Auth_response (Some ''new'') 3599"]
  have 2: "snd (snd (getAccessToken sample_config ?st 2000 2005
               (Auth_response (Some ''new'') 3599))) = [credential_exchange sample_config]
      \<and> cache_state_of (fst (snd (getAccessToken sample_config ?st 2000 2005
               (Auth_response (Some ''new'') 3599)))) = VALID ''new'' (Instant 3541005)"
    by simp
  from e getAccessToken_cache [of empty_cache "''tok''" 2000 1000 sample_config 1005
      "Auth_response (Some ''tok'') 10000000000000"]
  have 3: "cache_state_of (fst (snd (getAccessToken sample_config empty_cache 1000 1005
        (Auth_response (Some ''tok'') 10000000000000)))) = VALID ''tok'' Invalid_date"
    by simp
  from 1 2 3 show ?thesis by simp
qed

text \<open>
  Against claim C6 as stated: after a failed refresh of an expired token the cache still holds
  that token.
\<close>

theorem getAccessToken_stale_counterexample:
  "exchange_failed Auth_failed
   \<and> getAccessToken sample_config \<lparr>accessToken = Some ''stale'', tokenExpiry = Some (Instant 500)\<rparr>
        1000 1005 Auth_failed
      = (Inl auth_error, \<lparr>accessToken = Some ''stale'', tokenExpiry = Some (Instant 500)\<rparr>,
         [credential_exchange sample_config])
   \<and> cache_state_of (fst (snd (getAccessToken sample_config
        \<lparr>accessToken = Some ''stale'', tokenExpiry = Some (Instant 500)\<rparr> 1000 1005 Auth_failed)))
      = VALID ''stale'' (Instant 500)
   \<and> VALID ''stale'' (Instant 500) \<noteq> EMPTY"
  by (simp add: getAccessToken_def requestToken_def cache_state_of_def credential_exchange_def)

text \<open>
  Claim C6, amended. When the credential exchange is attempted and fails, the authentication
  error is raised and the cache is left as it was: an empty cache stays empty, an expired
  token stays stored.
\<close>

theorem getAccessToken_failure_keeps_state:
  assumes "cache_state_of st = EMPTY
           \<or> (\<exists>tok expiry. cache_state_of st = VALID tok expiry \<and> \<not> isBefore now expiry)"
    and "exchange_failed reply"
  shows "getAccessToken cfg st now now' reply = (Inl auth_error, st, [credential_exchange cfg])
         \<and> (cache_state_of st = EMPTY \<longrightarrow>
              cache_state_of (fst (snd (getAccessToken cfg st now now' reply))) = EMPTY)"
proof -
  have r: "requestToken cfg st now' reply = (Inl auth_error, st, [credential_exchange cfg])"
    using assms(2)
    by (cases reply rule: exchange_failed.cases)
      (simp_all add: requestToken_def credential_exchange_def)
  have "getAccessToken cfg st now now' reply = requestToken cfg st now' reply"
    using assms(1) by (rule getAccessToken_miss)
  with r show ?thesis by simp
qed

theorem getAccessToken_failure_keeps_state_witness:
  "getAccessToken sample_config empty_cache 1000 1005 Auth_failed
     = (Inl auth_error, empty_cache, [credential_exchange sample_config])
   \<and> cache_state_of (fst (snd (getAccessToken sample_config empty_cache 1000 1005 Auth_failed)))
     = EMPTY
   \<and> getAccessToken sample_config \<lparr>accessToken = Some ''stale'', tokenExpiry = Some (Instant 500)\<rparr>
        500 505 Auth_failed
     = (Inl auth_error, \<lparr>accessToken = Some ''stale'', tokenExpiry = Some (Instant 500)\<rparr>,
        [credential_exchange sample_config])"
proof -
  have e: "cache_state_of empty_cache = EMPTY"
    by (simp add: cache_state_of_def empty_cache_def)
  then have "cache_state_of empty_cache = EMPTY
      \<or> (\<exists>tok expiry. cache_state_of empty_cache = VALID tok expiry \<and> \<not> isBefore 1000 expiry)"
    by simp
  from getAccessToken_failure_keeps_state [OF this, of Auth_failed sample_config 1005] e
  have 1: "getAccessToken sample_config empty_cache 1000 1005 Auth_failed
     = (Inl auth_error, empty_cache, [credential_exchange sample_config])
   \<and> cache_state_of (fst (snd (getAccessToken sample_config empty_cache 1000 1005 Auth_failed)))
     = EMPTY"
    by simp
  let ?st = "\<lparr>accessToken = Some ''stale'', tokenExpiry = Some (Instant 500)\<rparr>"
  have "cache_state_of ?st = VALID ''stale'' (Instant 500) \<and> \<not> isBefore 500 (Instant 500)"
    by (simp add: cache_state_of_def)
  then have "cache_state_of ?st = EMPTY
      \<or> (\<exists>tok expiry. cache_state_of ?st = VALID tok expiry \<and> \<not> isBefore 500 expiry)"
    by blast
  from getAccessToken_failure_keeps_state [OF this, of Auth_failed sample_config 505]
  have 2: "getAccessToken sample_config ?st 500 505 Auth_failed
     = (Inl auth_error, ?st, [credential_exchange sample_config])"
    by simp
  from 1 2 show ?thesis by blast
qed

text \<open>
  A returned token is never the empty string, so a stored token is not either.
\<close>

lemma getAccessToken_token_nonempty:
  "fst (getAccessToken cfg st now now' reply) = Inr tok \<Longrightarrow> tok \<noteq> []"
  by (auto simp: getAccessToken_def requestToken_def Let_def
      split: option.splits if_splits auth_reply.splits)

section \<open>Properties of the rate limiter\<close>

lemma cleanup_own_record:
  assumes "0 < w"
  shows "cleanupRateLimitStore (now - w)
           (store(ip \<mapsto> filter (\<lambda>t. now - w < t) r @ [now])) ip
         = Some (filter (\<lambda>t. now - w < t) r @ [now])"
  using assms by (simp add: cleanupRateLimitStore_def Let_def)

lemma rateLimit_admit:
  assumes "0 < w" and "int (length (filter (\<lambda>t. now - w < t) (record_of store ip))) < c"
  shows "fst (rateLimit c w store ip now rnd) = Next"
    and "snd (rateLimit c w store ip now rnd) ip
         = Some (filter (\<lambda>t. now - w < t) (record_of store ip) @ [now])"
  using assms cleanup_own_record [OF assms(1), of now store ip "record_of store ip"]
  by (simp_all add: rateLimit_def record_of_def Let_def)

lemma rateLimit_reject:
  assumes "c \<le> int (length (filter (\<lambda>t. now - w < t) (record_of store ip)))"
  shows "rateLimit c w store ip now rnd
         = (Reject429 c w (remainingTime (filter (\<lambda>t. now - w < t) (record_of store ip)) w now),
            store)"
  using assms by (simp add: rateLimit_def record_of_def Let_def)

lemma ceiling_seconds_pos:
  fixes d :: int
  assumes "0 < d"
  shows "0 < \<lceil>real_of_int d / 1000\<rceil>"
  using assms by simp

text \<open>
  Against claim C7 as stated: 500 ms before the oldest retained timestamp leaves the window,
  the estimate is 1, a number of whole seconds, not the time until then.
\<close>

theorem rateLimit_retry_after_counterexample:
  "rateLimit 3 1000 [''client'' \<mapsto> [0, 100, 200]] ''client'' 500 (1 / 2)
     = (Reject429 3 1000 (Num 1), [''client'' \<mapsto> [0, 100, 200]])
   \<and> time_until_exit 1000 500 0 = 500
   \<and> Num 1 \<noteq> Num (real_of_int (time_until_exit 1000 500 0))
   \<and> Num 1 \<noteq> Num (real_of_int (time_until_exit 1000 500 0) / 1000)"
  by (simp add: rateLimit_def remainingTime_def time_until_exit_def ceiling_eq_iff)

text \<open>
  Claim C7, amended. For a window w > 0: a request that finds fewer than c timestamps of its
  client after now - w is admitted and now is appended to the retained ones; a request that
  finds at least c of them, with c > 0, is rejected, the store unchanged, with a positive
  estimate: the time until the first retained timestamp leaves the window, in seconds, rounded
  up. That timestamp is the oldest one when the record is in order of arrival, and the
  retained timestamps are those of the window (now - w, now] when none is later than now.
\<close>

theorem rateLimit_sliding_window:
  assumes "0 < w"
  shows "let kept = filter (\<lambda>t. now - w < t) (record_of store ip) in
     (int (length kept) < c \<longrightarrow>
        fst (rateLimit c w store ip now rnd) = Next
        \<and> snd (rateLimit c w store ip now rnd) ip = Some (kept @ [now]))
     \<and> (c \<le> int (length kept) \<and> 0 < c \<longrightarrow>
          (\<exists>oldest rest secs.
              kept = oldest # rest
              \<and> rateLimit c w store ip now rnd = (Reject429 c w (Num (of_int secs)), store)
              \<and> 0 < secs
              \<and> secs = \<lceil>real_of_int (time_until_exit w now oldest) / 1000\<rceil>
              \<and> (sorted (record_of store ip) \<longrightarrow> (\<forall>t\<in>set kept. oldest \<le> t))))
     \<and> ((\<forall>t\<in>set (record_of store ip). t \<le> now) \<longrightarrow>
          kept = filter (in_window w now) (record_of store ip))"
proof -
  define kept where "kept = filter (\<lambda>t. now - w < t) (record_of store ip)"
  have admit: "fst (rateLimit c w store ip now rnd) = Next
               \<and> snd (rateLimit c w store ip now rnd) ip = Some (kept @ [now])"
    if "int (length kept) < c"
    using rateLimit_admit [OF assms, of now store ip c rnd] that by (simp add: kept_def)
  have reject: "\<exists>oldest rest secs.
              kept = oldest # rest
              \<and> rateLimit c w store ip now rnd = (Reject429 c w (Num (of_int secs)), store)
              \<and> 0 < secs
              \<and> secs = \<lceil>real_of_int (time_until_exit w now oldest) / 1000\<rceil>
              \<and> (sorted (record_of store ip) \<longrightarrow> (\<forall>t\<in>set kept. oldest \<le> t))"
    if full: "c \<le> int (length kept)" and pos: "0 < c"
  proof -
    from full pos obtain oldest rest where k: "kept = oldest # rest"
      by (cases kept) auto
    then have "oldest \<in> set (filter (\<lambda>t. now - w < t) (record_of store ip))"
      by (simp add: kept_def [symmetric])
    then have "0 < oldest + w - now" by simp
    then have p: "0 < \<lceil>real_of_int (time_until_exit w now oldest) / 1000\<rceil>"
      unfolding time_until_exit_def by (rule ceiling_seconds_pos)
    have r: "rateLimit c w store ip now rnd
        = (Reject429 c w (Num (of_int \<lceil>real_of_int (time_until_exit w now oldest) / 1000\<rceil>)), store)"
      using rateLimit_reject [of c now w store ip rnd] full k
      by (simp add: kept_def [symmetric] remainingTime_def time_until_exit_def)
    have s: "\<forall>t\<in>set kept. oldest \<le> t" if "sorted (record_of store ip)"
    proof -
      from that have "sorted kept" unfolding kept_def by (rule sorted_wrt_filter)
      with k show ?thesis by auto
    qed
    from k p r s show ?thesis by blast
  qed
  have window: "kept = filter (in_window w now) (record_of store ip)"
    if "\<forall>t\<in>set (record_of store ip). t \<le> now"
    unfolding kept_def using that by (auto simp: in_window_def intro: filter_cong)
  from admit reject window show ?thesis
    unfolding kept_def [symmetric] Let_def by blast
qed

theorem rateLimit_sliding_window_witness:
  "fst (rateLimit 3 1000 [''client'' \<mapsto> [- 900, 100]] ''client'' 300 (1 / 20)) = Next
   \<and> snd (rateLimit 3 1000 [''client'' \<mapsto> [- 900, 100]] ''client'' 300 (1 / 20)) ''client''
       = Some [100, 300]
   \<and> rateLimit 3 1000 [''client'' \<mapsto> [0, 100, 200]] ''client'' 300 (1 / 2)
       = (Reject429 3 1000 (Num 1), [''client'' \<mapsto> [0, 100, 200]])"
proof -
  have w: "(0::int) < 1000" by simp
  have a: "record_of [''client'' \<mapsto> [- 900, 100 :: int]] ''client'' = [- 900, 100]"
    and b: "record_of [''client'' \<mapsto> [0, 100, 200 :: int]] ''client'' = [0, 100, 200]"
    by (simp_all add: record_of_def)
  from rateLimit_sliding_window [OF w, of 300 "[''client'' \<mapsto> [- 900, 100]]" "''client''" 3 "1 / 20"]
  have 1: "fst (rateLimit 3 1000 [''client'' \<mapsto> [- 900, 100]] ''client'' 300 (1 / 20)) = Next
   \<and> snd (rateLimit 3 1000 [''client'' \<mapsto> [- 900, 100]] ''client'' 300 (1 / 20)) ''client''
       = Some [100, 300]"
    by (simp add: a Let_def in_window_def)
  from rateLimit_sliding_window [OF w, of 300 "[''client'' \<mapsto> [0, 100, 200]]" "''client''" 3 "1 / 2"]
  have 2: "rateLimit 3 1000 [''client'' \<mapsto> [0, 100, 200]] ''client'' 300 (1 / 2)
       = (Reject429 3 1000 (Num 1), [''client'' \<mapsto> [0, 100, 200]])"
    by (simp add: b Let_def time_until_exit_def in_window_def)
  from 1 2 show ?thesis by simp
qed

text \<open>
  With capacity 0 every request is rejected, and the estimate of an empty record is NaN.
\<close>

lemma rateLimit_zero_capacity:
  "rateLimit 0 1000 Map.empty ''client'' 500 (1 / 2) = (Reject429 0 1000 NaN, Map.empty)"
  by (simp add: rateLimit_def remainingTime_def)

text \<open>
  With an empty window the admitted request is not kept when the sweep runs, and a record
  with times after \<open>now\<close> is counted although none of them lies in \<open>(now - w, now]\<close>.
\<close>

lemma rateLimit_empty_window:
  "fst (rateLimit 3 0 Map.empty ''client'' 500 (1 / 20)) = Next"
  "snd (rateLimit 3 0 Map.empty ''client'' 500 (1 / 20)) ''client'' = None"
  by (simp_all add: rateLimit_def cleanupRateLimitStore_def Let_def)

lemma rateLimit_clock_backwards:
  "fst (rateLimit 3 1000 [''client'' \<mapsto> [2000, 2000, 2000]] ''client'' 1500 (1 / 2))
     = Reject429 3 1000 (Num 2)"
  "filter (in_window 1000 1500) [2000, 2000, 2000] = []"
  by (simp_all add: rateLimit_def remainingTime_def in_window_def Let_def)

text \<open>
  Capacity 3 and a window of 1000 ms: three requests pass, the fourth is rejected, and a
  request after the first timestamp has left the window passes.
\<close>

lemma rateLimit_scenario:
  "fst (rateLimit_run 3 1000 Map.empty ''client''
          [(0, 1 / 2), (100, 1 / 20), (200, 1 / 2), (300, 1 / 2), (1001, 1 / 20)])
     = [Next, Next, Next, Reject429 3 1000 (Num 1), Next]"
  "snd (rateLimit_run 3 1000 Map.empty ''client''
          [(0, 1 / 2), (100, 1 / 20), (200, 1 / 2), (300, 1 / 2), (1001, 1 / 20)]) ''client''
     = Some [100, 200, 1001]"
  by (simp_all add: rateLimit_def remainingTime_def cleanupRateLimitStore_def Let_def)

text \<open>
  Claim C10. A rejected request leaves the whole store as it was: nothing is appended and the
  pruned record is not written back.
\<close>

theorem rateLimit_reject_leaves_store:
  "fst (rateLimit c w store ip now rnd) \<noteq> Next \<Longrightarrow> snd (rateLimit c w store ip now rnd) = store"
  by (simp add: rateLimit_def Let_def split: if_splits)

theorem rateLimit_reject_leaves_store_witness:
  "fst (rateLimit 3 1000 [''client'' \<mapsto> [- 5000, 0, 100, 200]] ''client'' 300 (1 / 20)) \<noteq> Next
   \<and> snd (rateLimit 3 1000 [''client'' \<mapsto> [- 5000, 0, 100, 200]] ''client'' 300 (1 / 20))
       = [''client'' \<mapsto> [- 5000, 0, 100, 200]]"
proof -
  have "fst (rateLimit 3 1000 [''client'' \<mapsto> [- 5000, 0, 100, 200]] ''client'' 300 (1 / 20)) \<noteq> Next"
    by (simp add: rateLimit_def Let_def)
  with rateLimit_reject_leaves_store [OF this] show ?thesis by simp
qed

text \<open>
  With a clock that never runs backwards the store stays chronological.
\<close>

lemma rateLimit_chronological:
  assumes "chronological store t0" and "t0 \<le> now"
  shows "chronological (snd (rateLimit c w store ip now rnd)) now"
proof -
  have f: "sorted (filter P r @ [now]) \<and> (\<forall>t\<in>set (filter P r @ [now]). t \<le> now)"
    if "sorted r" "\<forall>t\<in>set r. t \<le> t0" for r :: "int list" and P
    using that assms(2) by (force simp: sorted_append intro: sorted_wrt_filter)
  have g: "sorted (filter P r) \<and> (\<forall>t\<in>set (filter P r). t \<le> now)"
    if "sorted r" "\<forall>t\<in>set r. t \<le> now" for r :: "int list" and P
    using that by (auto intro: sorted_wrt_filter)
  have base: "chronological store now"
    using assms unfolding chronological_def by fastforce
  have upd: "chronological (store(ip \<mapsto> filter P (record_of store ip) @ [now])) now" for P
    using base f [of "record_of store ip" P] assms(1)
    unfolding chronological_def record_of_def
    by (auto split: option.splits)
  have clean: "chronological (cleanupRateLimitStore ws s) now" if "chronological s now" for ws s
    using that g unfolding chronological_def cleanupRateLimitStore_def Let_def
    by (auto split: option.splits if_splits)
  show ?thesis
    using base upd clean
    by (auto simp: rateLimit_def Let_def record_of_def [symmetric])
qed

section \<open>Properties of callback processing\<close>


lemma get_prop_None_iff: "get_prop v k = None \<longleftrightarrow> v = JUndefined \<or> v = JNull"
  by (cases v) simp_all















text \<open>
  The notification of a successful payment of the specification, and one with two items named
  __proto__.
\<close>

lemma processCallback_paid:
  "processCallback no_numbers ''2019-12-19T10:21:15.000Z'' callback_paid
     = Inr \<lparr>merchantRequestID = JString ''29115-34620561-1'',
            checkoutRequestID = JString ''ws_CO_191220191020363925'',
            resultCode = JNumber (Num 0),
            resultDesc = JString ''The service request is processed successfully.'',
            timestamp = ''2019-12-19T10:21:15.000Z'',
            paymentData = Some \<lparr>own_props = [''amount'' \<mapsto> JNumber (Num 1),
                                              ''mpesaReceiptNumber'' \<mapsto> JString ''NLJ7RT61SV''],
                                 prototype = Object_prototype\<rparr>,
            status = ''SUCCESS''\<rparr>"
  by (simp add: callback_paid_def processCallback_def callback_body_def extract_metadata_def
      store_item_def set_prop_def empty_object_def)

lemma processCallback_proto_twice:
  "processCallback no_numbers ''2019-12-19T10:21:15.000Z'' callback_proto_twice
     = Inr \<lparr>merchantRequestID = JUndefined, checkoutRequestID = JUndefined,
            resultCode = JNumber (Num 0), resultDesc = JUndefined,
            timestamp = ''2019-12-19T10:21:15.000Z'',
            paymentData = Some \<lparr>own_props = [''__proto__'' \<mapsto> JString ''x''],
                                 prototype = Null_prototype\<rparr>,
            status = ''SUCCESS''\<rparr>"
  by (simp add: callback_proto_twice_def processCallback_def callback_body_def
      extract_metadata_def store_item_def set_prop_def empty_object_def)

text \<open>
  Claim C9. The callback endpoint answers every body with status 200; a failure of the
  processing only shows in the fields of the answer.
\<close>

theorem handleCallback_always_200:
  "http_status (handleCallback ns ts body) = 200
   \<and> (success (handleCallback ns ts body) \<longleftrightarrow> (\<exists>r. processCallback ns ts body = Inr r))
   \<and> (\<forall>m. processCallback ns ts body = Inl (Error m) \<longrightarrow>
          \<not> success (handleCallback ns ts body) \<and> error (handleCallback ns ts body) = Some m)"
proof (cases "processCallback ns ts body")
  case (Inl e)
  then show ?thesis by (cases e) (simp add: handleCallback_def)
next
  case (Inr r)
  then show ?thesis by (simp add: handleCallback_def)
qed

theorem handleCallback_always_200_witness:
  "http_status (handleCallback no_numbers ''2019-12-19T10:21:15.000Z'' callback_without_metadata) = 200
   \<and> \<not> success (handleCallback no_numbers ''2019-12-19T10:21:15.000Z'' callback_without_metadata)
   \<and> error (handleCallback no_numbers ''2019-12-19T10:21:15.000Z'' callback_without_metadata)
       = Some ''Failed to process M-Pesa callback''"
proof -
  have "processCallback no_numbers ''2019-12-19T10:21:15.000Z'' callback_without_metadata
       = Inl (Error ''Failed to process M-Pesa callback'')"
    by (simp add: callback_without_metadata_def processCallback_def
      callback_body_def extract_metadata_def)
  with handleCallback_always_200 [of no_numbers "''2019-12-19T10:21:15.000Z''"
      callback_without_metadata]
  show ?thesis by blast
qed

section \<open>Properties of the payment request\<close>

lemma posted_append: "posted (xs @ ys) = posted xs @ posted ys"
  by (induction xs rule: posted.induct) simp_all

text \<open>
  Every payment request the service posts has the transaction type of a pay bill.
\<close>

lemma initiateSTKPush_posts_paybill:
  "\<forall>p\<in>set (posted (snd (snd (initiateSTKPush cfg st now now' ts auth stk phone amount ref desc)))).
     TransactionType p = ''CustomerPayBillOnline''"
proof -
  have g: "posted (snd (snd (getAccessToken cfg st now now' auth))) = []"
    by (auto simp: getAccessToken_def requestToken_def Let_def
        split: option.splits if_splits auth_reply.splits)
  show ?thesis
    using g
    by (auto simp: initiateSTKPush_def Let_def posted_append
        split: sum.splits prod.splits if_splits stk_reply.splits)
qed

text \<open>
  Claim C1. For the reference \<^verbatim>\<open>Till 5551234\<close> the service computes the
  transaction type of a till, yet the payload it posts carries the type of a pay bill.
\<close>

theorem initiateSTKPush_till_reference:
  "transactionType_of (Some ''Till 5551234'') = ''CustomerBuyGoodsOnline''
   \<and> map TransactionType (posted (snd (snd (initiateSTKPush sample_config empty_cache 1000 1005
        ''20240101120000'' (Auth_response (Some ''token'') 3599) sample_stk_reply
        ''0712345678'' (Num 10) (Some ''Till 5551234'') None))))
     = [''CustomerPayBillOnline'']"
  by (simp add: transactionType_of_def toLowerCase_def lower_char_def startsWith_def
      initiateSTKPush_def falsy_number_def formatPhoneNumber_def is_digit_def regex_match_def
      msisdn_regex_def numeral_eq_Suc getAccessToken_def requestToken_def empty_cache_def
      sample_stk_reply_def Let_def posted_append)

end
